theory Spec2Isabelle
  imports Main
begin

section \<open>Values produced by \<^verbatim>\<open>json.load\<close>\<close>

text \<open>
  \<^verbatim>\<open>parse_har\<close> works on whatever \<^verbatim>\<open>json.load\<close> returns: \<^verbatim>\<open>None\<close>, a
  \<^verbatim>\<open>bool\<close>, an \<^verbatim>\<open>int\<close>, a \<^verbatim>\<open>str\<close>, a \<^verbatim>\<open>list\<close> or a \<^verbatim>\<open>dict\<close> with string keys.
  A \<^verbatim>\<open>dict\<close> is the list of its items in insertion order (its keys are distinct); a key is
  looked up with \<open>map_of\<close>. A \<^verbatim>\<open>str\<close> is a \<open>string\<close>, one \<open>char\<close> per character, so the
  model covers the characters with a code point below 256. JSON numbers with a fraction
  or an exponent (Python \<^verbatim>\<open>float\<close>) are not part of the model.
\<close>

datatype json =
    JNull
  | JBool bool
  | JInt int
  | JStr string
  | JArr "json list"
  | JObj "(string \<times> json) list"

text \<open>
  The exceptions the program can meet, each with what \<^verbatim>\<open>str(e)\<close> is built from:
  the missing key of a \<^verbatim>\<open>KeyError\<close>, the message of a \<^verbatim>\<open>TypeError\<close> or an
  \<^verbatim>\<open>AttributeError\<close>, and the message of whatever \<^verbatim>\<open>open\<close> or \<^verbatim>\<open>json.load\<close> raised
  (\<open>LoadError\<close>). All of them are subclasses of \<^verbatim>\<open>Exception\<close>.
\<close>

datatype error =
    KeyError string
  | TypeError string
  | AttributeError string
  | LoadError string

subsection \<open>Decimal and hexadecimal digits\<close>

definition digit :: "nat \<Rightarrow> char" where
  "digit d = ''0123456789abcdef'' ! d"

function show_nat :: "nat \<Rightarrow> string" where
  "show_nat n = (if n < 10 then [digit n] else show_nat (n div 10) @ [digit (n mod 10)])"
  by pat_completeness auto
termination
  by (relation "measure id") auto

definition show_int :: "int \<Rightarrow> string" where
  "show_int i = (if i < 0 then ''-'' @ show_nat (nat (- i)) else show_nat (nat i))"

subsection \<open>\<^verbatim>\<open>repr\<close> and \<^verbatim>\<open>str\<close>\<close>

text \<open>
  \<^verbatim>\<open>repr\<close> of a \<^verbatim>\<open>str\<close>: single quotes, unless the text has a single quote and no double
  quote; the quote in use and the backslash are escaped, tab, newline and carriage return
  are written \<^verbatim>\<open>\t\<close>, \<^verbatim>\<open>\n\<close>, \<^verbatim>\<open>\r\<close>, and the other characters that are not printable
  (below 32, 127 to 160, 173) as \<^verbatim>\<open>\xhh\<close>.
\<close>

definition quote_of :: "string \<Rightarrow> char" where
  "quote_of s = (if CHR 0x27 \<in> set s \<and> CHR 0x22 \<notin> set s then CHR 0x22 else CHR 0x27)"

definition escape_char :: "char \<Rightarrow> char \<Rightarrow> string" where
  "escape_char q c =
     (let n = (of_char c :: nat) in
      if c = q \<or> c = CHR 0x5C then [CHR 0x5C, c]
      else if n = 9 then [CHR 0x5C, CHR ''t'']
      else if n = 10 then [CHR 0x5C, CHR ''n'']
      else if n = 13 then [CHR 0x5C, CHR ''r'']
      else if n < 32 \<or> (127 \<le> n \<and> n \<le> 160) \<or> n = 173
        then [CHR 0x5C, CHR ''x'', digit (n div 16), digit (n mod 16)]
      else [c])"

definition repr_str :: "string \<Rightarrow> string" where
  "repr_str s = (let q = quote_of s in [q] @ concat (map (escape_char q) s) @ [q])"

fun join :: "string \<Rightarrow> string list \<Rightarrow> string" where
  "join sep [] = []"
| "join sep [x] = x"
| "join sep (x # y # ys) = x @ sep @ join sep (y # ys)"

primrec py_repr :: "json \<Rightarrow> string" where
  "py_repr JNull = ''None''"
| "py_repr (JBool b) = (if b then ''True'' else ''False'')"
| "py_repr (JInt i) = show_int i"
| "py_repr (JStr s) = repr_str s"
| "py_repr (JArr xs) = ''['' @ join '', '' (map py_repr xs) @ '']''"
| "py_repr (JObj kvs) =
     ''{'' @ join '', '' (map (\<lambda>(k, r). repr_str k @ '': '' @ r) (map (map_prod id py_repr) kvs)) @ ''}''"

text \<open>What an f-string field \<^verbatim>\<open>{x}\<close> expands to: \<^verbatim>\<open>str(x)\<close>.\<close>

fun py_str :: "json \<Rightarrow> string" where
  "py_str (JStr s) = s"
| "py_str v = py_repr v"

text \<open>\<^verbatim>\<open>str(e)\<close> of a caught exception; for a \<^verbatim>\<open>KeyError\<close> it is the \<^verbatim>\<open>repr\<close> of the key.\<close>

fun message :: "error \<Rightarrow> string" where
  "message (KeyError k) = repr_str k"
| "message (TypeError m) = m"
| "message (AttributeError m) = m"
| "message (LoadError m) = m"

subsection \<open>The operations of Python the program uses\<close>

fun type_name :: "json \<Rightarrow> string" where
  "type_name JNull = ''NoneType''"
| "type_name (JBool _) = ''bool''"
| "type_name (JInt _) = ''int''"
| "type_name (JStr _) = ''str''"
| "type_name (JArr _) = ''list''"
| "type_name (JObj _) = ''dict''"

text \<open>Truth value of an object in an \<^verbatim>\<open>if\<close> or under \<^verbatim>\<open>and\<close>.\<close>

fun truthy :: "json \<Rightarrow> bool" where
  "truthy JNull = False"
| "truthy (JBool b) = b"
| "truthy (JInt i) = (i \<noteq> 0)"
| "truthy (JStr s) = (s \<noteq> [])"
| "truthy (JArr xs) = (xs \<noteq> [])"
| "truthy (JObj kvs) = (kvs \<noteq> [])"

text \<open>\<^verbatim>\<open>obj[key]\<close> with a string key (error messages as CPython 3.11 words them).\<close>

fun py_getitem :: "json \<Rightarrow> string \<Rightarrow> error + json" where
  "py_getitem (JObj kvs) k = (case map_of kvs k of None \<Rightarrow> Inl (KeyError k) | Some v \<Rightarrow> Inr v)"
| "py_getitem (JArr xs) k = Inl (TypeError ''list indices must be integers or slices, not str'')"
| "py_getitem (JStr s) k = Inl (TypeError (''string indices must be integers, not '' @ repr_str ''str''))"
| "py_getitem v k = Inl (TypeError (repr_str (type_name v) @ '' object is not subscriptable''))"

text \<open>\<^verbatim>\<open>obj.get(key, default)\<close>: only a \<^verbatim>\<open>dict\<close> has the method.\<close>

fun py_get :: "json \<Rightarrow> string \<Rightarrow> json \<Rightarrow> error + json" where
  "py_get (JObj kvs) k d = (case map_of kvs k of None \<Rightarrow> Inr d | Some v \<Rightarrow> Inr v)"
| "py_get v k d =
     Inl (AttributeError (repr_str (type_name v) @ '' object has no attribute '' @ repr_str ''get''))"

fun py_len :: "json \<Rightarrow> error + nat" where
  "py_len (JStr s) = Inr (length s)"
| "py_len (JArr xs) = Inr (length xs)"
| "py_len (JObj kvs) = Inr (length kvs)"
| "py_len v = Inl (TypeError (''object of type '' @ repr_str (type_name v) @ '' has no len()''))"

text \<open>
  The items a \<^verbatim>\<open>for\<close> loop visits: the elements of a list, the characters of a string,
  the keys of a dict.
\<close>

fun py_iter :: "json \<Rightarrow> error + json list" where
  "py_iter (JArr xs) = Inr xs"
| "py_iter (JStr s) = Inr (map (\<lambda>c. JStr [c]) s)"
| "py_iter (JObj kvs) = Inr (map (\<lambda>kv. JStr (fst kv)) kvs)"
| "py_iter v = Inl (TypeError (repr_str (type_name v) @ '' object is not iterable''))"

text \<open>\<open>is_substring xs ys\<close>: \<open>xs\<close> occurs in \<open>ys\<close> as a contiguous run.\<close>

fun is_substring :: "'a list \<Rightarrow> 'a list \<Rightarrow> bool" where
  "is_substring xs [] = (xs = [])"
| "is_substring xs (y # ys) = (take (length xs) (y # ys) = xs \<or> is_substring xs ys)"

text \<open>
  \<^verbatim>\<open>s in obj\<close> for a string \<open>s\<close>: substring of a \<^verbatim>\<open>str\<close>, element of a \<^verbatim>\<open>list\<close>,
  key of a \<^verbatim>\<open>dict\<close>.
\<close>

fun py_in :: "string \<Rightarrow> json \<Rightarrow> error + bool" where
  "py_in s (JStr t) = Inr (is_substring s t)"
| "py_in s (JArr xs) = Inr (JStr s \<in> set xs)"
| "py_in s (JObj kvs) = Inr (s \<in> fst ` set kvs)"
| "py_in s v = Inl (TypeError (''argument of type '' @ repr_str (type_name v) @ '' is not iterable''))"

text \<open>\<^verbatim>\<open>obj >= n\<close> for an integer \<open>n\<close>; a \<^verbatim>\<open>bool\<close> compares as 0 or 1.\<close>

fun py_ge :: "json \<Rightarrow> int \<Rightarrow> error + bool" where
  "py_ge (JInt i) n = Inr (i \<ge> n)"
| "py_ge (JBool b) n = Inr ((if b then 1 else 0) \<ge> n)"
| "py_ge v n =
     Inl (TypeError (repr_str ''>='' @ '' not supported between instances of ''
                     @ repr_str (type_name v) @ '' and '' @ repr_str ''int''))"

text \<open>\<^verbatim>\<open>obj[:n]\<close>.\<close>

fun py_slice :: "json \<Rightarrow> nat \<Rightarrow> error + json" where
  "py_slice (JStr s) n = Inr (JStr (take n s))"
| "py_slice (JArr xs) n = Inr (JArr (take n xs))"
| "py_slice (JObj kvs) n = Inl (TypeError (''unhashable type: '' @ repr_str ''slice''))"
| "py_slice v n = Inl (TypeError (repr_str (type_name v) @ '' object is not subscriptable''))"

section \<open>The program\<close>

text \<open>
  What a piece of the \<^verbatim>\<open>try\<close> body does: the arguments of the \<^verbatim>\<open>print\<close> calls it made,
  in order (each call writes its argument and a newline to standard output), and the
  exception that ended it, if one was raised.
\<close>

type_synonym outcome = "string list \<times> error option"

definition emit :: "string \<Rightarrow> outcome" where
  "emit s = ([s], None)"

definition skip :: outcome where
  "skip = ([], None)"

text \<open>One statement after another: the second runs only if the first raised nothing.\<close>

fun and_then :: "outcome \<Rightarrow> outcome \<Rightarrow> outcome" where
  "and_then (out, None) k = (out @ fst k, snd k)"
| "and_then (out, Some e) k = (out, Some e)"

text \<open>Evaluating an expression that may raise, then going on with its value.\<close>

fun eval :: "error + 'a \<Rightarrow> ('a \<Rightarrow> outcome) \<Rightarrow> outcome" where
  "eval (Inl e) k = ([], Some e)"
| "eval (Inr v) k = k v"

text \<open>The body of a \<^verbatim>\<open>for\<close> loop, run on the items in order until one run raises.\<close>

fun for_each :: "('a \<Rightarrow> outcome) \<Rightarrow> 'a list \<Rightarrow> outcome" where
  "for_each body [] = skip"
| "for_each body (x # xs) = and_then (body x) (for_each body xs)"

definition for_in :: "json \<Rightarrow> (json \<Rightarrow> outcome) \<Rightarrow> outcome" where
  "for_in xs body = eval (py_iter xs) (for_each body)"

text \<open>
  Lines 28 and 35, the body of both inner loops:
  \<^verbatim>\<open>print(f"  {header['name']}: {header['value']}")\<close>.
\<close>

definition print_pair :: "json \<Rightarrow> outcome" where
  "print_pair p =
     eval (py_getitem p ''name'') (\<lambda>n.
     eval (py_getitem p ''value'') (\<lambda>v.
     emit (''  '' @ py_str n @ '': '' @ py_str v)))"

text \<open>Lines 20 to 23: separator, URL, method and status.\<close>

definition print_request_line :: "json \<Rightarrow> json \<Rightarrow> json \<Rightarrow> outcome" where
  "print_request_line request response url =
     and_then (emit (replicate 80 CHR ''-''))
    (and_then (emit (''URL: '' @ py_str url))
    (and_then (eval (py_getitem request ''method'') (\<lambda>m. emit (''Method: '' @ py_str m)))
              (eval (py_getitem response ''status'') (\<lambda>st.
               eval (py_getitem response ''statusText'') (\<lambda>tx.
               emit (''Status: '' @ py_str st @ '' '' @ py_str tx))))))"

text \<open>Lines 26 to 28.\<close>

definition print_headers :: "json \<Rightarrow> outcome" where
  "print_headers request =
     and_then (emit ''Headers:'')
              (eval (py_getitem request ''headers'') (\<lambda>hs. for_in hs print_pair))"

text \<open>Lines 32 to 35.\<close>

definition print_query_params :: "json \<Rightarrow> outcome" where
  "print_query_params request =
     eval (py_get request ''queryString'' JNull) (\<lambda>q.
       if truthy q then
         and_then (emit ''Query Params:'')
                  (eval (py_getitem request ''queryString'') (\<lambda>ps. for_in ps print_pair))
       else skip)"

text \<open>Lines 45 and 46, the \<^verbatim>\<open>elif\<close> branch.\<close>

definition print_error_body :: "json \<Rightarrow> json \<Rightarrow> outcome" where
  "print_error_body response content =
     eval (py_getitem response ''status'') (\<lambda>st.
     eval (py_ge st 400) (\<lambda>ge.
       if ge then
         eval (py_get content ''text'' (JStr [])) (\<lambda>text.
         eval (py_slice text 500) (\<lambda>t.
         emit (''Error Response Body: '' @ py_str t)))
       else skip))"

text \<open>Lines 40 to 44, the \<^verbatim>\<open>if\<close> branch.\<close>

definition print_json_body :: "json \<Rightarrow> outcome" where
  "print_json_body content =
     eval (py_get content ''text'' (JStr [])) (\<lambda>text.
     eval (py_len text) (\<lambda>n.
       if n < 1000 then emit (''Response Body: '' @ py_str text)
       else eval (py_slice text 200) (\<lambda>t.
            emit (''Response Body (truncated): '' @ py_str t @ ''...''))))"

text \<open>
  Lines 38 to 46. In \<^verbatim>\<open>a and b\<close> the right operand is evaluated only when the left one
  is true.
\<close>

definition print_response_content :: "json \<Rightarrow> outcome" where
  "print_response_content response =
     eval (py_getitem response ''content'') (\<lambda>content.
     eval (py_get content ''mimeType'' JNull) (\<lambda>mt.
       if truthy mt then
         eval (py_getitem content ''mimeType'') (\<lambda>mt'.
         eval (py_in ''application/json'' mt') (\<lambda>is_json.
           if is_json then print_json_body content
           else print_error_body response content))
       else print_error_body response content))"

text \<open>
  Line 19, the filter; \<^verbatim>\<open>or\<close> evaluates its right operand only when the left one is
  false.
\<close>

definition url_matches :: "json \<Rightarrow> error + bool" where
  "url_matches url =
     (case py_in ''api/auth'' url of
        Inl e \<Rightarrow> Inl e
      | Inr a \<Rightarrow>
          if a then Inr True
          else (case py_in ''api/oauth'' url of
                  Inl e \<Rightarrow> Inl e
                | Inr b \<Rightarrow> if b then Inr True else py_in ''callback'' url))"

text \<open>Lines 20 to 46: what is printed for an entry that passed the filter.\<close>

definition render :: "json \<Rightarrow> json \<Rightarrow> json \<Rightarrow> outcome" where
  "render request response url =
     and_then (print_request_line request response url)
    (and_then (print_headers request)
    (and_then (print_query_params request)
              (print_response_content response)))"

text \<open>Lines 14 to 46, the body of the loop over the entries.\<close>

definition process_entry :: "json \<Rightarrow> outcome" where
  "process_entry entry =
     eval (py_getitem entry ''request'') (\<lambda>request.
     eval (py_getitem entry ''response'') (\<lambda>response.
     eval (py_getitem request ''url'') (\<lambda>url.
     eval (url_matches url) (\<lambda>m.
       if m then render request response url else skip))))"

text \<open>
  Lines 7 to 46, the body of the \<^verbatim>\<open>try\<close>. Its argument is what lines 7 and 8 gave: the
  value \<^verbatim>\<open>json.load\<close> returned, or the exception \<^verbatim>\<open>open\<close> or \<^verbatim>\<open>json.load\<close> raised.
\<close>

definition parse_har_try :: "error + json \<Rightarrow> outcome" where
  "parse_har_try loaded =
     eval loaded (\<lambda>har_data.
     eval (py_getitem har_data ''log'') (\<lambda>log.
     eval (py_getitem log ''entries'') (\<lambda>entries.
     eval (py_len entries) (\<lambda>n.
     and_then (emit (''Total entries: '' @ show_nat n))
              (for_in entries process_entry)))))"

text \<open>
  Lines 5 to 49: the \<^verbatim>\<open>try\<close> with its handler. The result is everything the call
  printed; the call itself always returns.
\<close>

definition parse_har_output :: "error + json \<Rightarrow> string list" where
  "parse_har_output loaded =
     (case parse_har_try loaded of
        (out, None) \<Rightarrow> out
      | (out, Some e) \<Rightarrow> out @ [''Error parsing HAR: '' @ message e])"

text \<open>
  A run of the program: the paths handed to \<^verbatim>\<open>open\<close> and the lines printed. The files
  are a function from a path to what opening and loading it gives.
\<close>

record run =
  opened :: "string list"
  printed :: "string list"

definition parse_har :: "(string \<Rightarrow> error + json) \<Rightarrow> string \<Rightarrow> run" where
  "parse_har files file_path =
     \<lparr>opened = [file_path], printed = parse_har_output (files file_path)\<rparr>"

text \<open>Lines 51 to 55; \<open>argv\<close> is \<^verbatim>\<open>sys.argv\<close>, the script's name first.\<close>

definition main :: "(string \<Rightarrow> error + json) \<Rightarrow> string list \<Rightarrow> run" where
  "main files argv =
     (if length argv < 2
      then \<lparr>opened = [], printed = [''Usage: python3 parse_har.py <file_path>'']\<rparr>
      else parse_har files (argv ! 1))"

section \<open>Vocabulary of the statements\<close>

text \<open>The line the handler prints starts with these 19 characters.\<close>

definition is_error_line :: "string \<Rightarrow> bool" where
  "is_error_line l = (take 19 l = ''Error parsing HAR: '')"

text \<open>No line a piece of the program printed looks like the handler's line.\<close>

definition quiet :: "outcome \<Rightarrow> bool" where
  "quiet r = (\<forall>l \<in> set (fst r). \<not> is_error_line l)"

text \<open>
  A header or a query parameter as the HAR format has it: an object whose
  \<^verbatim>\<open>name\<close> and \<^verbatim>\<open>value\<close> are strings; and the line printed for it.
\<close>

definition name_value :: "json \<Rightarrow> string \<times> string \<Rightarrow> bool" where
  "name_value p nv =
     (py_getitem p ''name'' = Inr (JStr (fst nv)) \<and> py_getitem p ''value'' = Inr (JStr (snd nv)))"

definition pair_line :: "string \<times> string \<Rightarrow> string" where
  "pair_line nv = ''  '' @ fst nv @ '': '' @ snd nv"

section \<open>Example documents\<close>

text \<open>Small HAR documents and entries on which the statements below are instantiated.\<close>

definition har_of :: "json list \<Rightarrow> json" where
  "har_of es = JObj [(''log'', JObj [(''version'', JStr ''1.2''), (''entries'', JArr es)])]"

definition login_entry :: json where
  "login_entry = JObj
     [(''request'', JObj
        [(''method'', JStr ''POST''),
         (''url'', JStr ''https://x.com/api/auth/login''),
         (''headers'', JArr [JObj [(''name'', JStr ''Accept''), (''value'', JStr ''*/*'')],
                             JObj [(''name'', JStr ''Host''), (''value'', JStr ''x.com'')]]),
         (''queryString'', JArr [JObj [(''name'', JStr ''next''), (''value'', JStr ''/home'')]])]),
      (''response'', JObj
        [(''status'', JInt 200),
         (''statusText'', JStr ''OK''),
         (''content'', JObj [(''mimeType'', JStr ''application/json; charset=utf-8''),
                             (''text'', JStr ''{}'')])])]"

definition callback_entry :: json where
  "callback_entry = JObj
     [(''request'', JObj
        [(''method'', JStr ''GET''),
         (''url'', JStr ''https://x.com/oauth/callback''),
         (''headers'', JArr [])]),
      (''response'', JObj
        [(''status'', JInt 404),
         (''statusText'', JStr ''Not Found''),
         (''content'', JObj [(''text'', JStr ''not found'')])])]"

definition static_entry :: json where
  "static_entry = JObj
     [(''request'', JObj
        [(''method'', JStr ''GET''),
         (''url'', JStr ''https://x.com/static/app.js''),
         (''headers'', JArr [])]),
      (''response'', JObj
        [(''status'', JInt 200),
         (''statusText'', JStr ''OK''),
         (''content'', JObj [(''mimeType'', JStr ''text/javascript'')])])]"

definition no_response_entry :: json where
  "no_response_entry = JObj
     [(''request'', JObj
        [(''method'', JStr ''GET''),
         (''url'', JStr ''https://x.com/static/app.js''),
         (''headers'', JArr [])])]"

definition no_content_entry :: json where
  "no_content_entry = JObj
     [(''request'', JObj
        [(''method'', JStr ''GET''),
         (''url'', JStr ''https://x.com/callback''),
         (''headers'', JArr [JObj [(''name'', JStr ''Host''), (''value'', JStr ''x.com'')]])]),
      (''response'', JObj
        [(''status'', JInt 302),
         (''statusText'', JStr ''Found'')])]"

definition long_body_entry :: json where
  "long_body_entry = JObj
     [(''request'', JObj
        [(''method'', JStr ''GET''),
         (''url'', JStr ''https://x.com/api/oauth/token''),
         (''headers'', JArr [])]),
      (''response'', JObj
        [(''status'', JInt 200),
         (''statusText'', JStr ''OK''),
         (''content'', JObj [(''mimeType'', JStr ''application/json''),
                             (''text'', JStr (replicate 1500 CHR ''x''))])])]"

section \<open>Sequencing and loops\<close>

lemma is_substring_iff: "is_substring xs ys \<longleftrightarrow> (\<exists>ps ss. ys = ps @ xs @ ss)"
proof (induction ys)
  case Nil
  then show ?case by auto
next
  case (Cons y ys)
  have "(\<exists>ps ss. y # ys = ps @ xs @ ss) \<longleftrightarrow>
        (\<exists>ss. y # ys = xs @ ss) \<or> (\<exists>ps ss. ys = ps @ xs @ ss)"
  proof
    assume "\<exists>ps ss. y # ys = ps @ xs @ ss"
    then obtain ps ss where eq: "y # ys = ps @ xs @ ss" by blast
    show "(\<exists>ss. y # ys = xs @ ss) \<or> (\<exists>ps ss. ys = ps @ xs @ ss)"
    proof (cases ps)
      case Nil
      with eq show ?thesis by auto
    next
      case (Cons p ps')
      with eq have "ys = ps' @ xs @ ss" by simp
      then show ?thesis by blast
    qed
  next
    assume "(\<exists>ss. y # ys = xs @ ss) \<or> (\<exists>ps ss. ys = ps @ xs @ ss)"
    then show "\<exists>ps ss. y # ys = ps @ xs @ ss"
    proof
      assume "\<exists>ss. y # ys = xs @ ss"
      then obtain ss where "y # ys = [] @ xs @ ss" by auto
      then show ?thesis by blast
    next
      assume "\<exists>ps ss. ys = ps @ xs @ ss"
      then obtain ps ss where "ys = ps @ xs @ ss" by blast
      then have "y # ys = (y # ps) @ xs @ ss" by simp
      then show ?thesis by blast
    qed
  qed
  moreover have "take (length xs) (y # ys) = xs \<longleftrightarrow> (\<exists>ss. y # ys = xs @ ss)"
  proof
    assume "take (length xs) (y # ys) = xs"
    then have "y # ys = xs @ drop (length xs) (y # ys)"
      by (metis append_take_drop_id)
    then show "\<exists>ss. y # ys = xs @ ss" ..
  next
    assume "\<exists>ss. y # ys = xs @ ss"
    then show "take (length xs) (y # ys) = xs" by auto
  qed
  ultimately show ?case using Cons.IH by simp
qed

lemma and_then_skip [simp]: "and_then skip k = k"
  by (simp add: skip_def)

lemma and_then_ok [simp]: "and_then (out, None) (out', r) = (out @ out', r)"
  by simp

lemma and_then_ok_fst: "snd a = None \<Longrightarrow> and_then a b = (fst a @ fst b, snd b)"
  by (cases a) simp

lemma and_then_raise: "snd a = Some e \<Longrightarrow> and_then a b = (fst a, Some e)"
  by (cases a) simp

lemma for_each_ok:
  "\<forall>x \<in> set xs. snd (body x) = None \<Longrightarrow>
   for_each body xs = (concat (map (\<lambda>x. fst (body x)) xs), None)"
  by (induction xs) (simp_all add: skip_def and_then_ok_fst)

lemma for_each_abort:
  assumes "\<forall>x \<in> set pre. snd (body x) = None" and "snd (body bad) = Some e"
  shows "for_each body (pre @ bad # post) =
         (concat (map (\<lambda>x. fst (body x)) pre) @ fst (body bad), Some e)"
  using assms by (induction pre) (simp_all add: and_then_ok_fst and_then_raise)

lemma parse_har_try_entries:
  assumes "py_getitem har_data ''log'' = Inr log"
    and "py_getitem log ''entries'' = Inr (JArr es)"
  shows "parse_har_try (Inr har_data) =
         and_then (emit (''Total entries: '' @ show_nat (length es))) (for_each process_entry es)"
  using assms by (simp add: parse_har_try_def for_in_def)

lemma print_pair_name_value: "name_value p nv \<Longrightarrow> print_pair p = ([pair_line nv], None)"
  by (simp add: name_value_def print_pair_def pair_line_def emit_def)

lemma for_each_print_pair:
  "list_all2 name_value ps nvs \<Longrightarrow> for_each print_pair ps = (map pair_line nvs, None)"
  by (induction rule: list_all2_induct) (simp_all add: skip_def print_pair_name_value)

lemma is_error_line_E: "is_error_line l \<Longrightarrow> l \<noteq> [] \<and> hd l = CHR ''E''"
  by (cases l) (auto simp: is_error_line_def)

lemma quiet_emit: "\<not> is_error_line s \<Longrightarrow> quiet (emit s)"
  by (simp add: quiet_def emit_def)

lemma quiet_skip: "quiet skip"
  by (simp add: quiet_def skip_def)

lemma quiet_and_then: "quiet a \<Longrightarrow> quiet b \<Longrightarrow> quiet (and_then a b)"
  by (cases a; cases "snd a") (auto simp: quiet_def)

lemma quiet_eval: "(\<And>v. quiet (k v)) \<Longrightarrow> quiet (eval x k)"
  by (cases x) (auto simp: quiet_def)

lemma quiet_for_each: "(\<And>x. quiet (body x)) \<Longrightarrow> quiet (for_each body xs)"
  by (induction xs) (simp_all add: quiet_skip quiet_and_then)

lemma quiet_for_in: "(\<And>x. quiet (body x)) \<Longrightarrow> quiet (for_in xs body)"
  by (simp add: for_in_def quiet_eval quiet_for_each)

lemma quiet_print_pair: "quiet (print_pair p)"
  unfolding print_pair_def
  by (intro quiet_eval quiet_emit) (simp add: is_error_line_def)

lemma quiet_print_request_line: "quiet (print_request_line request response url)"
  unfolding print_request_line_def
  by (intro quiet_and_then quiet_eval quiet_emit) (auto dest: is_error_line_E)

lemma quiet_print_headers: "quiet (print_headers request)"
  unfolding print_headers_def
  by (intro quiet_and_then quiet_eval quiet_emit quiet_for_in quiet_print_pair)
     (simp add: is_error_line_def)

lemma quiet_print_query_params: "quiet (print_query_params request)"
  unfolding print_query_params_def
  by (intro quiet_eval)
     (auto intro!: quiet_and_then quiet_eval quiet_emit quiet_for_in quiet_print_pair quiet_skip
           simp: is_error_line_def)

lemma quiet_print_error_body: "quiet (print_error_body response content)"
  unfolding print_error_body_def
  by (intro quiet_eval) (auto intro!: quiet_eval quiet_emit quiet_skip simp: is_error_line_def)

lemma quiet_print_json_body: "quiet (print_json_body content)"
  unfolding print_json_body_def
  by (intro quiet_eval) (auto intro!: quiet_eval quiet_emit simp: is_error_line_def)

lemma quiet_print_response_content: "quiet (print_response_content response)"
  unfolding print_response_content_def
  by (intro quiet_eval)
     (auto intro!: quiet_eval quiet_print_json_body quiet_print_error_body)

lemma quiet_process_entry: "quiet (process_entry entry)"
  unfolding process_entry_def render_def
  by (intro quiet_eval)
     (auto intro!: quiet_and_then quiet_print_request_line quiet_print_headers
                   quiet_print_query_params quiet_print_response_content quiet_skip)

lemma quiet_parse_har_try: "quiet (parse_har_try loaded)"
  unfolding parse_har_try_def
  by (intro quiet_eval quiet_and_then quiet_emit quiet_for_in quiet_process_entry)
     (simp add: is_error_line_def)

text \<open>\<open>show_nat\<close> writes a number in decimal: reading the digits back gives the number.\<close>

lemma show_nat_decimal: "foldl (\<lambda>a c. 10 * a + (of_char c - 48)) 0 (show_nat n) = n"
proof (induction n rule: show_nat.induct)
  case (1 n)
  have digit: "d < 10 \<Longrightarrow> (of_char (digit d) :: nat) - 48 = d" for d
  proof -
    assume "d < 10"
    then have "d \<in> {0, 1, 2, 3, 4, 5, 6, 7, 8, 9}" by auto
    then show ?thesis by (auto simp: digit_def)
  qed
  show ?case
  proof (cases "n < 10")
    case True
    then show ?thesis by (simp add: digit)
  next
    case False
    then have "show_nat n = show_nat (n div 10) @ [digit (n mod 10)]"
      by (subst show_nat.simps) simp
    then show ?thesis using 1 False by (simp add: digit)
  qed
qed

section \<open>The pieces of a rendered entry\<close>

lemmas program_defs =
  parse_har_output_def parse_har_try_def for_in_def process_entry_def url_matches_def
  render_def print_request_line_def print_headers_def print_query_params_def
  print_response_content_def print_json_body_def print_error_body_def print_pair_def
  emit_def skip_def

lemmas value_defs = digit_def show_int_def repr_str_def quote_of_def escape_char_def Let_def

lemmas example_defs =
  har_of_def login_entry_def callback_entry_def static_entry_def no_response_entry_def
  no_content_entry_def long_body_entry_def

lemma process_entry_filter:
  assumes "py_getitem entry ''request'' = Inr request"
    and "py_getitem entry ''response'' = Inr response"
    and "py_getitem request ''url'' = Inr (JStr url)"
  shows "process_entry entry =
         (if is_substring ''api/auth'' url \<or> is_substring ''api/oauth'' url
             \<or> is_substring ''callback'' url
          then render request response (JStr url) else skip)"
  using assms by (simp add: process_entry_def url_matches_def)

lemma print_request_line_ok:
  assumes "py_getitem request ''method'' = Inr (JStr method)"
    and "py_getitem response ''status'' = Inr (JInt status)"
    and "py_getitem response ''statusText'' = Inr (JStr status_text)"
  shows "print_request_line request response (JStr url) =
         ([replicate 80 CHR ''-'', ''URL: '' @ url, ''Method: '' @ method,
           ''Status: '' @ show_int status @ '' '' @ status_text], None)"
  using assms by (simp add: print_request_line_def emit_def)

lemma print_headers_ok:
  assumes "py_getitem request ''headers'' = Inr (JArr hs)"
    and "list_all2 name_value hs nvs"
  shows "print_headers request = (''Headers:'' # map pair_line nvs, None)"
  using assms by (simp add: print_headers_def emit_def for_in_def for_each_print_pair)

lemma print_query_params_ok:
  assumes "map_of rq ''queryString'' = None \<and> qs = [] \<or>
           (\<exists>ps. map_of rq ''queryString'' = Some (JArr ps) \<and> list_all2 name_value ps qs)"
  shows "print_query_params (JObj rq) =
         (if qs = [] then [] else ''Query Params:'' # map pair_line qs, None)"
  using assms
proof
  assume "map_of rq ''queryString'' = None \<and> qs = []"
  then show ?thesis by (simp add: print_query_params_def skip_def)
next
  assume "\<exists>ps. map_of rq ''queryString'' = Some (JArr ps) \<and> list_all2 name_value ps qs"
  then obtain ps where ps: "map_of rq ''queryString'' = Some (JArr ps)"
    and all: "list_all2 name_value ps qs" by blast
  from all have "ps = [] \<longleftrightarrow> qs = []" by (auto simp: list_all2_Nil list_all2_Nil2)
  with ps all show ?thesis
    by (simp add: print_query_params_def skip_def emit_def for_in_def for_each_print_pair)
qed

lemma print_response_content_ok:
  assumes "py_getitem response ''content'' = Inr (JObj c)"
    and "map_of c ''mimeType'' = map_option JStr mime"
    and "map_of c ''text'' = map_option JStr txt"
    and "py_getitem response ''status'' = Inr (JInt status)"
    and "body = (case txt of None \<Rightarrow> [] | Some t \<Rightarrow> t)"
  shows "print_response_content response =
         (if (\<exists>m. mime = Some m \<and> is_substring ''application/json'' m) then
            (if length body < 1000 then [''Response Body: '' @ body]
             else [''Response Body (truncated): '' @ take 200 body @ ''...''])
          else if status \<ge> 400 then [''Error Response Body: '' @ take 500 body]
          else [], None)"
proof -
  have get_text: "py_get (JObj c) ''text'' (JStr []) = Inr (JStr body)"
    using assms(3,5) by (cases "txt") simp_all
  have err: "print_error_body response (JObj c) =
             (if status \<ge> 400 then [''Error Response Body: '' @ take 500 body] else [], None)"
    using assms(4) get_text by (simp add: print_error_body_def emit_def skip_def)
  have js: "print_json_body (JObj c) =
            (if length body < 1000 then [''Response Body: '' @ body]
             else [''Response Body (truncated): '' @ take 200 body @ ''...''], None)"
    using get_text by (simp add: print_json_body_def emit_def)
  show ?thesis
  proof (cases mime)
    case None
    with assms(1,2) err show ?thesis by (simp add: print_response_content_def)
  next
    case (Some m)
    have "m = [] \<Longrightarrow> \<not> is_substring ''application/json'' m" by simp
    with Some assms(1,2) err js show ?thesis
      by (auto simp add: print_response_content_def)
  qed
qed

lemma run_ok:
  assumes "py_getitem har_data ''log'' = Inr log"
    and "py_getitem log ''entries'' = Inr (JArr es)"
    and "\<forall>x \<in> set es. snd (process_entry x) = None"
  shows "parse_har_output (Inr har_data) =
         (''Total entries: '' @ show_nat (length es)) # concat (map (\<lambda>x. fst (process_entry x)) es)"
  using assms
  by (simp add: parse_har_output_def parse_har_try_entries for_each_ok emit_def)

lemma try_abort:
  assumes "py_getitem har_data ''log'' = Inr log"
    and "py_getitem log ''entries'' = Inr (JArr (pre @ bad # post))"
    and "\<forall>x \<in> set pre. snd (process_entry x) = None"
    and "snd (process_entry bad) = Some e"
  shows "parse_har_try (Inr har_data) =
         ((''Total entries: '' @ show_nat (length (pre @ bad # post)))
            # concat (map (\<lambda>x. fst (process_entry x)) pre) @ fst (process_entry bad), Some e)"
  using assms(3,4)
  by (simp add: parse_har_try_entries [OF assms(1,2)] for_each_abort emit_def)

lemma run_abort:
  assumes "py_getitem har_data ''log'' = Inr log"
    and "py_getitem log ''entries'' = Inr (JArr (pre @ bad # post))"
    and "\<forall>x \<in> set pre. snd (process_entry x) = None"
    and "snd (process_entry bad) = Some e"
  shows "parse_har_output (Inr har_data) =
         (''Total entries: '' @ show_nat (length (pre @ bad # post)))
           # concat (map (\<lambda>x. fst (process_entry x)) pre) @ fst (process_entry bad)
           @ [''Error parsing HAR: '' @ message e]"
  by (simp add: parse_har_output_def try_abort [OF assms])

lemma and_then_emit: "and_then (emit s) k = (s # fst k, snd k)"
  by (simp add: emit_def)

lemma and_then_Cons:
  "and_then (l # ls, r) k = (l # fst (and_then (ls, r) k), snd (and_then (ls, r) k))"
  by (cases r) simp_all

lemma render_starts:
  "\<exists>rest r. render request response url = (replicate 80 CHR ''-'' # rest, r)"
  by (simp add: render_def print_request_line_def and_then_emit and_then_Cons)

lemma repr_str_request: "repr_str ''request'' = [CHR 0x27] @ ''request'' @ [CHR 0x27]"
  by (simp add: value_defs)

lemma repr_str_response: "repr_str ''response'' = [CHR 0x27] @ ''response'' @ [CHR 0x27]"
  by (simp add: value_defs)

lemma repr_str_content: "repr_str ''content'' = [CHR 0x27] @ ''content'' @ [CHR 0x27]"
  by (simp add: value_defs)

text \<open>A header without a name or a value ends the loop over the headers.\<close>

lemma header_without_name_or_value:
  assumes "py_getitem request ''headers'' = Inr (JArr (hs @ JObj h # hs'))"
    and "list_all2 name_value hs nvs"
    and "map_of h ''name'' = None \<or> map_of h ''value'' = None"
  shows "print_headers request =
           (''Headers:'' # map pair_line nvs,
            Some (KeyError (if map_of h ''name'' = None then ''name'' else ''value'')))"
proof -
  have ok: "\<forall>x \<in> set hs. snd (print_pair x) = None"
    using assms(2) by (induction rule: list_all2_induct) (simp_all add: print_pair_name_value)
  have lines: "concat (map (\<lambda>x. fst (print_pair x)) hs) = map pair_line nvs"
    using for_each_ok [OF ok] for_each_print_pair [OF assms(2)] by simp
  have bad: "print_pair (JObj h) =
             ([], Some (KeyError (if map_of h ''name'' = None then ''name'' else ''value'')))"
    using assms(3) by (cases "map_of h ''name''") (auto simp: print_pair_def)
  show ?thesis
    using for_each_abort [OF ok, of "JObj h" _ hs'] bad lines
    by (simp add: print_headers_def assms(1) for_in_def and_then_emit)
qed

section \<open>The claims\<close>

text \<open>
  Claim C1. For an entry that passes the filter and whose lines up to the query
  parameters were printed without an exception, with \<^verbatim>\<open>content\<close> an object whose
  \<^verbatim>\<open>mimeType\<close> and \<^verbatim>\<open>text\<close> are strings or absent and with an integer \<^verbatim>\<open>status\<close>, the
  block ends as follows. If \<^verbatim>\<open>mimeType\<close> is there and contains \<^verbatim>\<open>application/json\<close>:
  \<^verbatim>\<open>Response Body: \<close> and the text when it is shorter than 1000 characters,
  \<^verbatim>\<open>Response Body (truncated): \<close>, its first 200 characters and \<^verbatim>\<open>...\<close> otherwise.
  Else, if the status is at least 400: \<^verbatim>\<open>Error Response Body: \<close> and the first 500
  characters of the text. Else nothing. An absent text counts as the empty string.
\<close>

theorem response_body_line:
  assumes "py_getitem entry ''request'' = Inr request"
    and "py_getitem entry ''response'' = Inr response"
    and "py_getitem request ''url'' = Inr (JStr url)"
    and "is_substring ''api/auth'' url \<or> is_substring ''api/oauth'' url
         \<or> is_substring ''callback'' url"
    and "print_request_line request response (JStr url) = (l1, None)"
    and "print_headers request = (l2, None)"
    and "print_query_params request = (l3, None)"
    and "py_getitem response ''content'' = Inr (JObj c)"
    and "map_of c ''mimeType'' = map_option JStr mime"
    and "map_of c ''text'' = map_option JStr txt"
    and "py_getitem response ''status'' = Inr (JInt status)"
    and "body = (case txt of None \<Rightarrow> [] | Some t \<Rightarrow> t)"
  shows "process_entry entry =
           (l1 @ l2 @ l3 @
            (if (\<exists>m. mime = Some m \<and> is_substring ''application/json'' m) then
               (if length body < 1000 then [''Response Body: '' @ body]
                else [''Response Body (truncated): '' @ take 200 body @ ''...''])
             else if status \<ge> 400 then [''Error Response Body: '' @ take 500 body]
             else []), None)"
proof -
  have "process_entry entry = render request response (JStr url)"
    using process_entry_filter [OF assms(1,2,3)] assms(4) by simp
  then show ?thesis
    by (simp only: render_def assms(5,6,7) print_response_content_ok [OF assms(8,9,10,11,12)]
        and_then_ok)
qed

theorem response_body_line_witness:
  "process_entry long_body_entry =
     ([replicate 80 CHR ''-'', ''URL: https://x.com/api/oauth/token'', ''Method: GET'',
       ''Status: 200 OK'', ''Headers:'',
       ''Response Body (truncated): '' @ replicate 200 CHR ''x'' @ ''...''], None)"
proof -
  let ?rq = "JObj [(''method'', JStr ''GET''), (''url'', JStr ''https://x.com/api/oauth/token''),
                   (''headers'', JArr [])]"
  let ?c = "[(''mimeType'', JStr ''application/json''), (''text'', JStr (replicate 1500 CHR ''x''))]"
  let ?rs = "JObj [(''status'', JInt 200), (''statusText'', JStr ''OK''), (''content'', JObj ?c)]"
  have a1: "py_getitem long_body_entry ''request'' = Inr ?rq"
    and a2: "py_getitem long_body_entry ''response'' = Inr ?rs"
    by (simp_all add: long_body_entry_def)
  have a3: "py_getitem ?rq ''url'' = Inr (JStr ''https://x.com/api/oauth/token'')"
    by simp
  have a4: "is_substring ''api/auth'' ''https://x.com/api/oauth/token'' \<or>
            is_substring ''api/oauth'' ''https://x.com/api/oauth/token'' \<or>
            is_substring ''callback'' ''https://x.com/api/oauth/token''"
    by simp
  have a5: "print_request_line ?rq ?rs (JStr ''https://x.com/api/oauth/token'') =
            ([replicate 80 CHR ''-'', ''URL: https://x.com/api/oauth/token'', ''Method: GET'',
              ''Status: 200 OK''], None)"
    by (simp add: program_defs value_defs)
  have a6: "print_headers ?rq = ([''Headers:''], None)"
    by (simp add: program_defs)
  have a7: "print_query_params ?rq = ([], None)"
    by (simp add: program_defs)
  have a8: "py_getitem ?rs ''content'' = Inr (JObj ?c)"
    by simp
  have a9: "map_of ?c ''mimeType'' = map_option JStr (Some ''application/json'')"
    by simp
  have a10: "map_of ?c ''text'' = map_option JStr (Some (replicate 1500 CHR ''x''))"
    by simp
  have a11: "py_getitem ?rs ''status'' = Inr (JInt 200)"
    by simp
  have a12: "replicate 1500 CHR ''x'' =
             (case Some (replicate 1500 CHR ''x'') of None \<Rightarrow> [] | Some t \<Rightarrow> t)"
    by simp
  have json: "is_substring ''application/json'' ''application/json''"
    by simp
  show ?thesis
    using response_body_line [OF a1 a2 a3 a4 a5 a6 a7 a8 a9 a10 a11 a12] json
    by simp
qed

text \<open>
  Claim C2. When the body of the \<^verbatim>\<open>try\<close> raises \<open>e\<close> after printing \<open>out\<close>, the call
  returns and its output is \<open>out\<close> followed by the one line
  \<^verbatim>\<open>Error parsing HAR: <message>\<close>; no line of \<open>out\<close> starts like that line. If loading
  raised, \<open>out\<close> is empty. If an entry raised, \<open>out\<close> is the count line, the output of the
  entries before it and what the failing entry had printed: the entries after it print
  nothing.
\<close>

theorem error_line_once_and_last:
  assumes "parse_har_try loaded = (out, Some e)"
  shows "parse_har_output loaded = out @ [''Error parsing HAR: '' @ message e] \<and>
         (\<forall>l \<in> set out. \<not> is_error_line l) \<and>
         (\<forall>e'. loaded = Inl e' \<longrightarrow> out = [] \<and> e = e') \<and>
         (\<forall>har_data log pre bad post.
            loaded = Inr har_data \<and>
            py_getitem har_data ''log'' = Inr log \<and>
            py_getitem log ''entries'' = Inr (JArr (pre @ bad # post)) \<and>
            (\<forall>x \<in> set pre. snd (process_entry x) = None) \<and>
            snd (process_entry bad) \<noteq> None \<longrightarrow>
            out = (''Total entries: '' @ show_nat (length (pre @ bad # post)))
                    # concat (map (\<lambda>x. fst (process_entry x)) pre) @ fst (process_entry bad))"
proof (intro conjI allI impI)
  show "parse_har_output loaded = out @ [''Error parsing HAR: '' @ message e]"
    using assms by (simp add: parse_har_output_def)
next
  show "\<forall>l \<in> set out. \<not> is_error_line l"
    using quiet_parse_har_try [of loaded] assms by (simp add: quiet_def)
next
  fix e' assume "loaded = Inl e'"
  with assms show "out = []" and "e = e'" by (simp_all add: parse_har_try_def)
next
  fix har_data log pre bad post
  assume h: "loaded = Inr har_data \<and>
            py_getitem har_data ''log'' = Inr log \<and>
            py_getitem log ''entries'' = Inr (JArr (pre @ bad # post)) \<and>
            (\<forall>x \<in> set pre. snd (process_entry x) = None) \<and>
            snd (process_entry bad) \<noteq> None"
  then obtain e' where "snd (process_entry bad) = Some e'" by auto
  with h have "parse_har_try loaded =
         ((''Total entries: '' @ show_nat (length (pre @ bad # post)))
            # concat (map (\<lambda>x. fst (process_entry x)) pre) @ fst (process_entry bad), Some e')"
    using try_abort [of har_data log pre bad post e'] by simp
  with assms show "out = (''Total entries: '' @ show_nat (length (pre @ bad # post)))
                    # concat (map (\<lambda>x. fst (process_entry x)) pre) @ fst (process_entry bad)"
    by simp
qed

theorem error_line_once_and_last_witness:
  "parse_har_output (Inr (har_of [callback_entry, no_response_entry, login_entry])) =
     [''Total entries: 3'',
      replicate 80 CHR ''-'', ''URL: https://x.com/oauth/callback'', ''Method: GET'',
      ''Status: 404 Not Found'', ''Headers:'', ''Error Response Body: not found'',
      ''Error parsing HAR: '' @ [CHR 0x27] @ ''response'' @ [CHR 0x27]]"
proof -
  have h: "parse_har_try (Inr (har_of [callback_entry, no_response_entry, login_entry])) =
     ([''Total entries: 3'',
       replicate 80 CHR ''-'', ''URL: https://x.com/oauth/callback'', ''Method: GET'',
       ''Status: 404 Not Found'', ''Headers:'', ''Error Response Body: not found''],
      Some (KeyError ''response''))"
    by (simp add: example_defs program_defs value_defs)
  show ?thesis
    using error_line_once_and_last [OF h] by (simp add: repr_str_response)
qed

text \<open>
  Claim C3. An entry whose \<^verbatim>\<open>request.url\<close> is a string prints a block exactly when
  the url contains \<^verbatim>\<open>api/auth\<close>, \<^verbatim>\<open>api/oauth\<close> or \<^verbatim>\<open>callback\<close> as a substring: then
  it is rendered, and the rendering starts with the separator line; otherwise the entry
  prints nothing and raises nothing.
\<close>

theorem block_iff_url_matches:
  assumes "py_getitem entry ''request'' = Inr request"
    and "py_getitem entry ''response'' = Inr response"
    and "py_getitem request ''url'' = Inr (JStr url)"
  shows "process_entry entry =
           (if (\<exists>p s. url = p @ ''api/auth'' @ s) \<or> (\<exists>p s. url = p @ ''api/oauth'' @ s)
               \<or> (\<exists>p s. url = p @ ''callback'' @ s)
            then render request response (JStr url) else ([], None)) \<and>
         (\<exists>rest r. render request response (JStr url) = (replicate 80 CHR ''-'' # rest, r))"
  using process_entry_filter [OF assms] render_starts [of request response "JStr url"]
  by (simp add: is_substring_iff skip_def)

theorem block_iff_url_matches_witness:
  "process_entry static_entry = ([], None) \<and>
   process_entry callback_entry =
     ([replicate 80 CHR ''-'', ''URL: https://x.com/oauth/callback'', ''Method: GET'',
       ''Status: 404 Not Found'', ''Headers:'', ''Error Response Body: not found''], None)"
proof -
  let ?rq1 = "JObj [(''method'', JStr ''GET''), (''url'', JStr ''https://x.com/static/app.js''),
                    (''headers'', JArr [])]"
  let ?rs1 = "JObj [(''status'', JInt 200), (''statusText'', JStr ''OK''),
                    (''content'', JObj [(''mimeType'', JStr ''text/javascript'')])]"
  let ?rq2 = "JObj [(''method'', JStr ''GET''), (''url'', JStr ''https://x.com/oauth/callback''),
                    (''headers'', JArr [])]"
  let ?rs2 = "JObj [(''status'', JInt 404), (''statusText'', JStr ''Not Found''),
                    (''content'', JObj [(''text'', JStr ''not found'')])]"
  have a1: "py_getitem static_entry ''request'' = Inr ?rq1"
    and a2: "py_getitem static_entry ''response'' = Inr ?rs1"
    and a3: "py_getitem ?rq1 ''url'' = Inr (JStr ''https://x.com/static/app.js'')"
    by (simp_all add: static_entry_def)
  have b1: "py_getitem callback_entry ''request'' = Inr ?rq2"
    and b2: "py_getitem callback_entry ''response'' = Inr ?rs2"
    and b3: "py_getitem ?rq2 ''url'' = Inr (JStr ''https://x.com/oauth/callback'')"
    by (simp_all add: callback_entry_def)
  have "\<not> is_substring ''api/auth'' ''https://x.com/static/app.js''"
    and "\<not> is_substring ''api/oauth'' ''https://x.com/static/app.js''"
    and "\<not> is_substring ''callback'' ''https://x.com/static/app.js''"
    by simp_all
  then have no: "\<not> ((\<exists>p s. ''https://x.com/static/app.js'' = p @ ''api/auth'' @ s) \<or>
                    (\<exists>p s. ''https://x.com/static/app.js'' = p @ ''api/oauth'' @ s) \<or>
                    (\<exists>p s. ''https://x.com/static/app.js'' = p @ ''callback'' @ s))"
    unfolding is_substring_iff by blast
  have "is_substring ''callback'' ''https://x.com/oauth/callback''"
    by simp
  then have yes: "(\<exists>p s. ''https://x.com/oauth/callback'' = p @ ''api/auth'' @ s) \<or>
                  (\<exists>p s. ''https://x.com/oauth/callback'' = p @ ''api/oauth'' @ s) \<or>
                  (\<exists>p s. ''https://x.com/oauth/callback'' = p @ ''callback'' @ s)"
    unfolding is_substring_iff by blast
  have "process_entry static_entry = ([], None)"
    by (rule trans [OF conjunct1 [OF block_iff_url_matches [OF a1 a2 a3]] if_not_P [OF no]])
  moreover have "process_entry callback_entry = render ?rq2 ?rs2 (JStr ''https://x.com/oauth/callback'')"
    by (rule trans [OF conjunct1 [OF block_iff_url_matches [OF b1 b2 b3]] if_P [OF yes]])
  moreover have "render ?rq2 ?rs2 (JStr ''https://x.com/oauth/callback'') =
     ([replicate 80 CHR ''-'', ''URL: https://x.com/oauth/callback'', ''Method: GET'',
       ''Status: 404 Not Found'', ''Headers:'', ''Error Response Body: not found''], None)"
    by (simp add: program_defs value_defs)
  ultimately show ?thesis by simp
qed

text \<open>
  Claim C4. For an entry that passes the filter, with string \<^verbatim>\<open>url\<close>, \<^verbatim>\<open>method\<close> and
  \<^verbatim>\<open>statusText\<close>, an integer \<^verbatim>\<open>status\<close> and a list of headers with string names and
  values, the entry prints exactly: the line of 80 dashes, then \<^verbatim>\<open>URL: \<close>, \<^verbatim>\<open>Method: \<close>
  and \<^verbatim>\<open>Status: \<close> with the values as they are, then \<^verbatim>\<open>Headers:\<close>, then one indented line
  for each header in the order of the list and no other line (with no header, the label
  alone), and after these what the query parameters and the response content print.
\<close>

theorem block_begins:
  assumes "py_getitem entry ''request'' = Inr request"
    and "py_getitem entry ''response'' = Inr response"
    and "py_getitem request ''url'' = Inr (JStr url)"
    and "is_substring ''api/auth'' url \<or> is_substring ''api/oauth'' url
         \<or> is_substring ''callback'' url"
    and "py_getitem request ''method'' = Inr (JStr method)"
    and "py_getitem response ''status'' = Inr (JInt status)"
    and "py_getitem response ''statusText'' = Inr (JStr status_text)"
    and "py_getitem request ''headers'' = Inr (JArr hs)"
    and "list_all2 name_value hs nvs"
  shows "process_entry entry =
           and_then
             ([replicate 80 CHR ''-'', ''URL: '' @ url, ''Method: '' @ method,
               ''Status: '' @ show_int status @ '' '' @ status_text, ''Headers:'']
              @ map pair_line nvs, None)
             (and_then (print_query_params request) (print_response_content response))"
proof -
  have "process_entry entry = render request response (JStr url)"
    using process_entry_filter [OF assms(1,2,3)] assms(4) by simp
  then show ?thesis
    by (simp add: render_def print_request_line_ok [OF assms(5,6,7)]
        print_headers_ok [OF assms(8,9)])
qed

theorem block_begins_witness:
  "process_entry login_entry =
     ([replicate 80 CHR ''-'', ''URL: https://x.com/api/auth/login'', ''Method: POST'',
       ''Status: 200 OK'', ''Headers:'', ''  Accept: */*'', ''  Host: x.com'',
       ''Query Params:'', ''  next: /home'', ''Response Body: {}''], None) \<and>
   process_entry callback_entry =
     ([replicate 80 CHR ''-'', ''URL: https://x.com/oauth/callback'', ''Method: GET'',
       ''Status: 404 Not Found'', ''Headers:'', ''Error Response Body: not found''], None)"
proof -
  let ?h1 = "JObj [(''name'', JStr ''Accept''), (''value'', JStr ''*/*'')]"
  let ?h2 = "JObj [(''name'', JStr ''Host''), (''value'', JStr ''x.com'')]"
  let ?rq = "JObj [(''method'', JStr ''POST''), (''url'', JStr ''https://x.com/api/auth/login''),
                   (''headers'', JArr [?h1, ?h2]),
                   (''queryString'', JArr [JObj [(''name'', JStr ''next''), (''value'', JStr ''/home'')]])]"
  let ?rs = "JObj [(''status'', JInt 200), (''statusText'', JStr ''OK''),
                   (''content'', JObj [(''mimeType'', JStr ''application/json; charset=utf-8''),
                                       (''text'', JStr ''{}'')])]"
  have a1: "py_getitem login_entry ''request'' = Inr ?rq"
    and a2: "py_getitem login_entry ''response'' = Inr ?rs"
    by (simp_all add: login_entry_def)
  have a3: "py_getitem ?rq ''url'' = Inr (JStr ''https://x.com/api/auth/login'')"
    and a5: "py_getitem ?rq ''method'' = Inr (JStr ''POST'')"
    and a6: "py_getitem ?rs ''status'' = Inr (JInt 200)"
    and a7: "py_getitem ?rs ''statusText'' = Inr (JStr ''OK'')"
    and a8: "py_getitem ?rq ''headers'' = Inr (JArr [?h1, ?h2])"
    by simp_all
  have a4: "is_substring ''api/auth'' ''https://x.com/api/auth/login'' \<or>
            is_substring ''api/oauth'' ''https://x.com/api/auth/login'' \<or>
            is_substring ''callback'' ''https://x.com/api/auth/login''"
    by simp
  have a9: "list_all2 name_value [?h1, ?h2] [(''Accept'', ''*/*''), (''Host'', ''x.com'')]"
    by (simp add: name_value_def)
  have after: "and_then (print_query_params ?rq) (print_response_content ?rs) =
               ([''Query Params:'', ''  next: /home'', ''Response Body: {}''], None)"
    by (simp add: program_defs)
  let ?rq' = "JObj [(''method'', JStr ''GET''), (''url'', JStr ''https://x.com/oauth/callback''),
                    (''headers'', JArr [])]"
  let ?rs' = "JObj [(''status'', JInt 404), (''statusText'', JStr ''Not Found''),
                    (''content'', JObj [(''text'', JStr ''not found'')])]"
  have b1: "py_getitem callback_entry ''request'' = Inr ?rq'"
    and b2: "py_getitem callback_entry ''response'' = Inr ?rs'"
    by (simp_all add: callback_entry_def)
  have b3: "py_getitem ?rq' ''url'' = Inr (JStr ''https://x.com/oauth/callback'')"
    and b5: "py_getitem ?rq' ''method'' = Inr (JStr ''GET'')"
    and b6: "py_getitem ?rs' ''status'' = Inr (JInt 404)"
    and b7: "py_getitem ?rs' ''statusText'' = Inr (JStr ''Not Found'')"
    and b8: "py_getitem ?rq' ''headers'' = Inr (JArr [])"
    by simp_all
  have b4: "is_substring ''api/auth'' ''https://x.com/oauth/callback'' \<or>
            is_substring ''api/oauth'' ''https://x.com/oauth/callback'' \<or>
            is_substring ''callback'' ''https://x.com/oauth/callback''"
    by simp
  have b9: "list_all2 name_value [] []"
    by simp
  have after': "and_then (print_query_params ?rq') (print_response_content ?rs') =
                ([''Error Response Body: not found''], None)"
    by (simp add: program_defs)
  have "process_entry login_entry =
     ([replicate 80 CHR ''-'', ''URL: https://x.com/api/auth/login'', ''Method: POST'',
       ''Status: 200 OK'', ''Headers:'', ''  Accept: */*'', ''  Host: x.com'',
       ''Query Params:'', ''  next: /home'', ''Response Body: {}''], None)"
    using block_begins [OF a1 a2 a3 a4 a5 a6 a7 a8 a9] after
    by (simp add: pair_line_def value_defs)
  moreover have "process_entry callback_entry =
     ([replicate 80 CHR ''-'', ''URL: https://x.com/oauth/callback'', ''Method: GET'',
       ''Status: 404 Not Found'', ''Headers:'', ''Error Response Body: not found''], None)"
    using block_begins [OF b1 b2 b3 b4 b5 b6 b7 b8 b9] after'
    by (simp add: value_defs)
  ultimately show ?thesis by (rule conjI)
qed

text \<open>
  Claim C5. When \<^verbatim>\<open>har_data['log']['entries']\<close> is a list of \<open>N\<close> entries, the first
  line printed is \<^verbatim>\<open>Total entries: N\<close>, before anything an entry prints; and when no
  entry raises, the rest of the output is what the entries print, one after the other in
  the order of the list (an entry the filter rejects prints nothing).
\<close>

theorem total_entries_first:
  assumes "py_getitem har_data ''log'' = Inr log"
    and "py_getitem log ''entries'' = Inr (JArr es)"
  shows "(\<exists>rest. parse_har_output (Inr har_data) =
            (''Total entries: '' @ show_nat (length es)) # rest) \<and>
         ((\<forall>x \<in> set es. snd (process_entry x) = None) \<longrightarrow>
            parse_har_output (Inr har_data) =
            (''Total entries: '' @ show_nat (length es))
              # concat (map (\<lambda>x. fst (process_entry x)) es))"
proof
  show "\<exists>rest. parse_har_output (Inr har_data) =
          (''Total entries: '' @ show_nat (length es)) # rest"
    by (cases "snd (for_each process_entry es)")
       (simp_all add: parse_har_output_def parse_har_try_entries [OF assms] and_then_emit)
  show "(\<forall>x \<in> set es. snd (process_entry x) = None) \<longrightarrow>
          parse_har_output (Inr har_data) =
          (''Total entries: '' @ show_nat (length es))
            # concat (map (\<lambda>x. fst (process_entry x)) es)"
    using run_ok [OF assms] by blast
qed

theorem total_entries_first_witness:
  "parse_har_output (Inr (har_of [login_entry, static_entry, callback_entry])) =
     [''Total entries: 3'',
      replicate 80 CHR ''-'', ''URL: https://x.com/api/auth/login'', ''Method: POST'',
      ''Status: 200 OK'', ''Headers:'', ''  Accept: */*'', ''  Host: x.com'',
      ''Query Params:'', ''  next: /home'', ''Response Body: {}'',
      replicate 80 CHR ''-'', ''URL: https://x.com/oauth/callback'', ''Method: GET'',
      ''Status: 404 Not Found'', ''Headers:'', ''Error Response Body: not found'']"
proof -
  let ?es = "[login_entry, static_entry, callback_entry]"
  let ?log = "JObj [(''version'', JStr ''1.2''), (''entries'', JArr ?es)]"
  have h1: "py_getitem (har_of ?es) ''log'' = Inr ?log"
    by (simp add: har_of_def)
  have h2: "py_getitem ?log ''entries'' = Inr (JArr ?es)"
    by simp
  have ok: "\<forall>x \<in> set ?es. snd (process_entry x) = None"
    by (simp add: example_defs program_defs value_defs)
  have blocks: "concat (map (\<lambda>x. fst (process_entry x)) ?es) =
     [replicate 80 CHR ''-'', ''URL: https://x.com/api/auth/login'', ''Method: POST'',
      ''Status: 200 OK'', ''Headers:'', ''  Accept: */*'', ''  Host: x.com'',
      ''Query Params:'', ''  next: /home'', ''Response Body: {}'',
      replicate 80 CHR ''-'', ''URL: https://x.com/oauth/callback'', ''Method: GET'',
      ''Status: 404 Not Found'', ''Headers:'', ''Error Response Body: not found'']"
    by (simp add: example_defs program_defs value_defs)
  show ?thesis
    using total_entries_first [OF h1 h2] ok blocks by (simp add: digit_def)
qed

text \<open>
  Claim C6. For an entry that passes the filter and whose lines up to the headers were
  printed without an exception: when \<^verbatim>\<open>queryString\<close> is a list of parameters with string
  names and values that is not empty, the next lines are \<^verbatim>\<open>Query Params:\<close> and one
  indented line for each parameter in the order of the list; when \<^verbatim>\<open>queryString\<close> is
  absent or the empty list, nothing stands between the headers and what the response
  content prints.
\<close>

theorem query_params_block:
  assumes "py_getitem entry ''request'' = Inr (JObj rq)"
    and "py_getitem entry ''response'' = Inr response"
    and "py_getitem (JObj rq) ''url'' = Inr (JStr url)"
    and "is_substring ''api/auth'' url \<or> is_substring ''api/oauth'' url
         \<or> is_substring ''callback'' url"
    and "print_request_line (JObj rq) response (JStr url) = (l1, None)"
    and "print_headers (JObj rq) = (l2, None)"
    and "map_of rq ''queryString'' = None \<and> qs = [] \<or>
         (\<exists>ps. map_of rq ''queryString'' = Some (JArr ps) \<and> list_all2 name_value ps qs)"
  shows "fst (process_entry entry) =
           l1 @ l2 @ (if qs = [] then [] else ''Query Params:'' # map pair_line qs)
           @ fst (print_response_content response)"
proof -
  have "process_entry entry = render (JObj rq) response (JStr url)"
    using process_entry_filter [OF assms(1,2,3)] assms(4) by simp
  then show ?thesis
    by (simp only: render_def assms(5,6) print_query_params_ok [OF assms(7)] and_then_ok_fst
        fst_conv snd_conv append_assoc)
qed

theorem query_params_block_witness:
  "fst (process_entry login_entry) =
     [replicate 80 CHR ''-'', ''URL: https://x.com/api/auth/login'', ''Method: POST'',
      ''Status: 200 OK'', ''Headers:'', ''  Accept: */*'', ''  Host: x.com'',
      ''Query Params:'', ''  next: /home'', ''Response Body: {}'']"
proof -
  let ?q = "JObj [(''name'', JStr ''next''), (''value'', JStr ''/home'')]"
  let ?rq = "[(''method'', JStr ''POST''), (''url'', JStr ''https://x.com/api/auth/login''),
              (''headers'', JArr [JObj [(''name'', JStr ''Accept''), (''value'', JStr ''*/*'')],
                                  JObj [(''name'', JStr ''Host''), (''value'', JStr ''x.com'')]]),
              (''queryString'', JArr [?q])]"
  let ?rs = "JObj [(''status'', JInt 200), (''statusText'', JStr ''OK''),
                   (''content'', JObj [(''mimeType'', JStr ''application/json; charset=utf-8''),
                                       (''text'', JStr ''{}'')])]"
  have a1: "py_getitem login_entry ''request'' = Inr (JObj ?rq)"
    and a2: "py_getitem login_entry ''response'' = Inr ?rs"
    by (simp_all add: login_entry_def)
  have a3: "py_getitem (JObj ?rq) ''url'' = Inr (JStr ''https://x.com/api/auth/login'')"
    by simp
  have a4: "is_substring ''api/auth'' ''https://x.com/api/auth/login'' \<or>
            is_substring ''api/oauth'' ''https://x.com/api/auth/login'' \<or>
            is_substring ''callback'' ''https://x.com/api/auth/login''"
    by simp
  have a5: "print_request_line (JObj ?rq) ?rs (JStr ''https://x.com/api/auth/login'') =
            ([replicate 80 CHR ''-'', ''URL: https://x.com/api/auth/login'', ''Method: POST'',
              ''Status: 200 OK''], None)"
    by (simp add: program_defs value_defs)
  have a6: "print_headers (JObj ?rq) = ([''Headers:'', ''  Accept: */*'', ''  Host: x.com''], None)"
    by (simp add: program_defs)
  have a7: "map_of ?rq ''queryString'' = None \<and> [(''next'', ''/home'')] = [] \<or>
            (\<exists>ps. map_of ?rq ''queryString'' = Some (JArr ps) \<and>
                  list_all2 name_value ps [(''next'', ''/home'')])"
    by (simp add: name_value_def)
  have body: "fst (print_response_content ?rs) = [''Response Body: {}'']"
    by (simp add: program_defs)
  show ?thesis
    using query_params_block [OF a1 a2 a3 a4 a5 a6 a7] body
    by (simp add: pair_line_def)
qed

text \<open>
  Claim C7. With no argument after the script's name the run prints the usage line
  and nothing else, and opens no file. With at least one, the run is \<^verbatim>\<open>parse_har\<close> on the
  first: it opens that path only, and the arguments after it change nothing.
\<close>

theorem usage_or_first_argument:
  "(length argv < 2 \<longrightarrow>
      main files argv = \<lparr>opened = [], printed = [''Usage: python3 parse_har.py <file_path>'']\<rparr>) \<and>
   main files (prog # file_path # extra) = parse_har files file_path \<and>
   main files (prog # file_path # extra) = main files [prog, file_path] \<and>
   opened (main files (prog # file_path # extra)) = [file_path]"
  by (simp add: main_def parse_har_def)

theorem usage_or_first_argument_witness:
  "main (\<lambda>p. Inr (har_of [login_entry])) [''parse_har.py''] =
     \<lparr>opened = [], printed = [''Usage: python3 parse_har.py <file_path>'']\<rparr>"
proof -
  have "length [''parse_har.py''] < 2" by simp
  then show ?thesis
    using usage_or_first_argument [of "[''parse_har.py'']" "\<lambda>p. Inr (har_of [login_entry])"]
    by blast
qed

text \<open>
  Claim C9. \<^verbatim>\<open>entry['request']\<close> and \<^verbatim>\<open>entry['response']\<close> are read before the filter
  looks at the url. So an entry without the key \<^verbatim>\<open>request\<close>, or with it and without the
  key \<^verbatim>\<open>response\<close>, ends the run whatever its url is: after the count line and the
  output of the entries before it comes the error line with the missing key, and the
  entries after it print nothing.
\<close>

theorem missing_request_or_response_aborts:
  assumes "py_getitem har_data ''log'' = Inr log"
    and "py_getitem log ''entries'' = Inr (JArr (pre @ JObj bad # post))"
    and "\<forall>x \<in> set pre. snd (process_entry x) = None"
    and "map_of bad ''request'' = None \<or> map_of bad ''response'' = None"
  shows "parse_har_output (Inr har_data) =
           (''Total entries: '' @ show_nat (length (pre @ JObj bad # post)))
             # concat (map (\<lambda>x. fst (process_entry x)) pre)
             @ [''Error parsing HAR: '' @ [CHR 0x27]
                  @ (if map_of bad ''request'' = None then ''request'' else ''response'')
                  @ [CHR 0x27]]"
proof (cases "map_of bad ''request''")
  case None
  then have "process_entry (JObj bad) = ([], Some (KeyError ''request''))"
    by (simp add: process_entry_def)
  then show ?thesis
    using run_abort [OF assms(1,2,3), of "KeyError ''request''"] None
    by (simp add: repr_str_request)
next
  case (Some request)
  with assms(4) have "process_entry (JObj bad) = ([], Some (KeyError ''response''))"
    by (simp add: process_entry_def)
  then show ?thesis
    using run_abort [OF assms(1,2,3), of "KeyError ''response''"] Some
    by (simp add: repr_str_response)
qed

theorem missing_request_or_response_aborts_witness:
  "parse_har_output (Inr (har_of [static_entry, no_response_entry, login_entry])) =
     [''Total entries: 3'', ''Error parsing HAR: '' @ [CHR 0x27] @ ''response'' @ [CHR 0x27]]"
proof -
  let ?bad = "[(''request'', JObj [(''method'', JStr ''GET''),
                                   (''url'', JStr ''https://x.com/static/app.js''),
                                   (''headers'', JArr [])])]"
  let ?es = "[static_entry] @ JObj ?bad # [login_entry]"
  let ?log = "JObj [(''version'', JStr ''1.2''), (''entries'', JArr ?es)]"
  have h1: "py_getitem (har_of [static_entry, no_response_entry, login_entry]) ''log'' = Inr ?log"
    by (simp add: har_of_def no_response_entry_def)
  have h2: "py_getitem ?log ''entries'' = Inr (JArr ?es)"
    by simp
  have h3: "\<forall>x \<in> set [static_entry]. snd (process_entry x) = None"
    by (simp add: static_entry_def program_defs)
  have h4: "map_of ?bad ''request'' = None \<or> map_of ?bad ''response'' = None"
    by simp
  have pre: "concat (map (\<lambda>x. fst (process_entry x)) [static_entry]) = []"
    by (simp add: static_entry_def program_defs)
  show ?thesis
    using missing_request_or_response_aborts [OF h1 h2 h3 h4] pre
    by (simp add: digit_def)
qed

text \<open>
  Claim C10. An entry is not rendered all at once. For an entry that passes the
  filter, well formed up to the query parameters, whose \<^verbatim>\<open>response\<close> has no key
  \<^verbatim>\<open>content\<close>: the separator, the URL, method and status lines, the headers and the query
  parameters are in the output, and the error line for the key \<^verbatim>\<open>content\<close> comes right
  after them; the entries after it print nothing.
\<close>

theorem partial_block_then_error:
  assumes "py_getitem har_data ''log'' = Inr log"
    and "py_getitem log ''entries'' = Inr (JArr (pre @ entry # post))"
    and "\<forall>x \<in> set pre. snd (process_entry x) = None"
    and "py_getitem entry ''request'' = Inr (JObj rq)"
    and "py_getitem entry ''response'' = Inr (JObj rs)"
    and "py_getitem (JObj rq) ''url'' = Inr (JStr url)"
    and "is_substring ''api/auth'' url \<or> is_substring ''api/oauth'' url
         \<or> is_substring ''callback'' url"
    and "py_getitem (JObj rq) ''method'' = Inr (JStr method)"
    and "py_getitem (JObj rs) ''status'' = Inr (JInt status)"
    and "py_getitem (JObj rs) ''statusText'' = Inr (JStr status_text)"
    and "py_getitem (JObj rq) ''headers'' = Inr (JArr hs)"
    and "list_all2 name_value hs nvs"
    and "map_of rq ''queryString'' = None \<and> qs = [] \<or>
         (\<exists>ps. map_of rq ''queryString'' = Some (JArr ps) \<and> list_all2 name_value ps qs)"
    and "map_of rs ''content'' = None"
  shows "parse_har_output (Inr har_data) =
           (''Total entries: '' @ show_nat (length (pre @ entry # post)))
             # concat (map (\<lambda>x. fst (process_entry x)) pre)
             @ [replicate 80 CHR ''-'', ''URL: '' @ url, ''Method: '' @ method,
                ''Status: '' @ show_int status @ '' '' @ status_text, ''Headers:'']
             @ map pair_line nvs
             @ (if qs = [] then [] else ''Query Params:'' # map pair_line qs)
             @ [''Error parsing HAR: '' @ [CHR 0x27] @ ''content'' @ [CHR 0x27]]"
proof -
  have "process_entry entry = render (JObj rq) (JObj rs) (JStr url)"
    using process_entry_filter [OF assms(4,5,6)] assms(7) by simp
  moreover have "print_response_content (JObj rs) = ([], Some (KeyError ''content''))"
    using assms(14) by (simp add: print_response_content_def)
  ultimately have "process_entry entry =
      ([replicate 80 CHR ''-'', ''URL: '' @ url, ''Method: '' @ method,
        ''Status: '' @ show_int status @ '' '' @ status_text, ''Headers:'']
       @ map pair_line nvs
       @ (if qs = [] then [] else ''Query Params:'' # map pair_line qs),
       Some (KeyError ''content''))"
    by (simp add: render_def print_request_line_ok [OF assms(8,9,10)]
        print_headers_ok [OF assms(11,12)] print_query_params_ok [OF assms(13)])
  then show ?thesis
    using run_abort [OF assms(1,2,3), of "KeyError ''content''"]
    by (simp add: repr_str_content)
qed

theorem partial_block_then_error_witness:
  "parse_har_output (Inr (har_of [static_entry, no_content_entry, login_entry])) =
     [''Total entries: 3'', replicate 80 CHR ''-'', ''URL: https://x.com/callback'',
      ''Method: GET'', ''Status: 302 Found'', ''Headers:'', ''  Host: x.com'',
      ''Error parsing HAR: '' @ [CHR 0x27] @ ''content'' @ [CHR 0x27]]"
proof -
  let ?h = "JObj [(''name'', JStr ''Host''), (''value'', JStr ''x.com'')]"
  let ?rq = "[(''method'', JStr ''GET''), (''url'', JStr ''https://x.com/callback''),
              (''headers'', JArr [?h])]"
  let ?rs = "[(''status'', JInt 302), (''statusText'', JStr ''Found'')]"
  let ?es = "[static_entry] @ no_content_entry # [login_entry]"
  let ?log = "JObj [(''version'', JStr ''1.2''), (''entries'', JArr ?es)]"
  have h1: "py_getitem (har_of [static_entry, no_content_entry, login_entry]) ''log'' = Inr ?log"
    by (simp add: har_of_def)
  have h2: "py_getitem ?log ''entries'' = Inr (JArr ?es)"
    by simp
  have h3: "\<forall>x \<in> set [static_entry]. snd (process_entry x) = None"
    by (simp add: static_entry_def program_defs)
  have h4: "py_getitem no_content_entry ''request'' = Inr (JObj ?rq)"
    and h5: "py_getitem no_content_entry ''response'' = Inr (JObj ?rs)"
    by (simp_all add: no_content_entry_def)
  have h6: "py_getitem (JObj ?rq) ''url'' = Inr (JStr ''https://x.com/callback'')"
    and h8: "py_getitem (JObj ?rq) ''method'' = Inr (JStr ''GET'')"
    and h9: "py_getitem (JObj ?rs) ''status'' = Inr (JInt 302)"
    and h10: "py_getitem (JObj ?rs) ''statusText'' = Inr (JStr ''Found'')"
    and h11: "py_getitem (JObj ?rq) ''headers'' = Inr (JArr [?h])"
    by simp_all
  have h7: "is_substring ''api/auth'' ''https://x.com/callback'' \<or>
            is_substring ''api/oauth'' ''https://x.com/callback'' \<or>
            is_substring ''callback'' ''https://x.com/callback''"
    by simp
  have h12: "list_all2 name_value [?h] [(''Host'', ''x.com'')]"
    by (simp add: name_value_def)
  have h13: "map_of ?rq ''queryString'' = None \<and> ([] :: (string \<times> string) list) = [] \<or>
             (\<exists>ps. map_of ?rq ''queryString'' = Some (JArr ps) \<and> list_all2 name_value ps [])"
    by simp
  have h14: "map_of ?rs ''content'' = None"
    by simp
  have pre: "concat (map (\<lambda>x. fst (process_entry x)) [static_entry]) = []"
    by (simp add: static_entry_def program_defs)
  show ?thesis
    using partial_block_then_error [OF h1 h2 h3 h4 h5 h6 h7 h8 h9 h10 h11 h12 h13 h14] pre
    by (simp add: pair_line_def value_defs)
qed

section \<open>The scenarios of the specification\<close>

text \<open>
  The model run on the scenarios A to F of the specification, and on a file that holds
  a JSON list instead of a HAR document.
\<close>

lemma scenario_A:
  "process_entry login_entry =
     ([replicate 80 CHR ''-'', ''URL: https://x.com/api/auth/login'', ''Method: POST'',
       ''Status: 200 OK'', ''Headers:'', ''  Accept: */*'', ''  Host: x.com'',
       ''Query Params:'', ''  next: /home'', ''Response Body: {}''], None)"
  by (simp add: example_defs program_defs value_defs)

lemma scenario_B:
  "last (fst (process_entry long_body_entry)) =
     ''Response Body (truncated): '' @ replicate 200 CHR ''x'' @ ''...''"
  by (simp add: example_defs program_defs value_defs)

lemma scenario_C: "process_entry static_entry = ([], None)"
  by (simp add: example_defs program_defs value_defs)

lemma scenario_D:
  "process_entry callback_entry =
     ([replicate 80 CHR ''-'', ''URL: https://x.com/oauth/callback'', ''Method: GET'',
       ''Status: 404 Not Found'', ''Headers:'', ''Error Response Body: not found''], None)"
  by (simp add: example_defs program_defs value_defs)

lemma scenario_E:
  "main files [''parse_har.py''] =
     \<lparr>opened = [], printed = [''Usage: python3 parse_har.py <file_path>'']\<rparr>"
  by (simp add: main_def)

lemma scenario_F:
  "parse_har_output (Inl (LoadError m)) = [''Error parsing HAR: '' @ m]"
  by (simp add: parse_har_output_def parse_har_try_def)

lemma not_a_har_document:
  "parse_har_output (Inr (JArr [])) =
     [''Error parsing HAR: list indices must be integers or slices, not str'']"
  by (simp add: parse_har_output_def parse_har_try_def)

text \<open>The filter compares characters as they are: upper case does not match.\<close>

lemma filter_is_case_sensitive:
  "url_matches (JStr ''https://x.com/API/AUTH/Callback'') = Inr False"
  by (simp add: url_matches_def)

end
